theory Spec2Isabelle
  imports Main
begin

section \<open>AskURL: a shallow embedding of the ingestion and question-answering services\<close>

text \<open>
  The two service classes of the repository, \<open>DocumentProcessor\<close>
  (\<open>src/utils/document_processor.py\<close>) and \<open>QAChain\<close> (\<open>src/utils/qa_chain.py\<close>), are thin
  wrappers around third-party libraries: a URL loader, a text splitter, an embedding client,
  the FAISS vector store and a chat model. Their code is embedded here function by function.
  The library calls are not part of the repository; they are parameters of the model (the
  record \<open>services\<close>), and every call made to one of them is recorded in a trace, so that
  what the wrappers ask of the libraries, how often and in which order, can be stated.
\<close>

subsection \<open>Configuration (\<open>src/config.py\<close>)\<close>

definition BASE_URL :: string where
  "BASE_URL = ''https://models.inference.ai.azure.com''"

definition EMBEDDING_MODEL :: string where
  "EMBEDDING_MODEL = ''text-embedding-3-small''"

definition CHUNK_SIZE :: nat where
  "CHUNK_SIZE = 1000"

definition CHUNK_OVERLAP :: nat where
  "CHUNK_OVERLAP = 200"

definition RETRIEVAL_K :: nat where
  "RETRIEVAL_K = 3"

definition FAISS_INDEX_PATH :: string where
  "FAISS_INDEX_PATH = ''faiss_store_openai.pkl''"

subsection \<open>Python string helpers\<close>

text \<open>
  \<open>s.replace(old, new)\<close>: every non-overlapping occurrence of \<open>old\<close> in \<open>s\<close>, scanning from
  the left, is replaced by \<open>new\<close>. For an empty \<open>old\<close> Python puts \<open>new\<close> before every
  character and at the end.
\<close>

fun str_replace :: "string \<Rightarrow> string \<Rightarrow> string \<Rightarrow> string" where
  "str_replace old new [] = (if old = [] then new else [])"
| "str_replace old new (c # cs) =
     (if old = [] then new @ c # str_replace old new cs
      else if take (length old) (c # cs) = old
        then new @ str_replace old new (drop (length old) (c # cs))
      else c # str_replace old new cs)"

text \<open>\<open>sep.join(xs)\<close>.\<close>

fun str_join :: "string \<Rightarrow> string list \<Rightarrow> string" where
  "str_join sep [] = []"
| "str_join sep [x] = x"
| "str_join sep (x # y # ys) = x @ sep @ str_join sep (y # ys)"

subsection \<open>Data\<close>

text \<open>
  A LangChain document as the code reads it: the text \<open>page_content\<close> and the dictionary
  \<open>metadata\<close>. The code asks \<open>hasattr(doc, 'metadata')\<close> first, so an object without that
  attribute is \<open>None\<close> here. The dictionary is an association list read with \<open>map_of\<close>;
  the values the code handles (it joins them with a newline) are strings.
\<close>

record document =
  page_content :: string
  metadata :: "(string \<times> string) list option"

text \<open>Exceptions raised by the libraries travel through the wrappers as values.\<close>

datatype exn = Exception string

text \<open>
  The file system as \<open>os.path\<close> and FAISS see it: a path names nothing, a regular file, or a
  directory with its entries.
\<close>

datatype node = File string | Dir "(string \<times> node) list"

type_synonym filesystem = "string \<Rightarrow> node option"

definition os_path_exists :: "filesystem \<Rightarrow> string \<Rightarrow> bool" where
  "os_path_exists fs p = (case fs p of None \<Rightarrow> False | Some _ \<Rightarrow> True)"

definition os_path_isdir :: "filesystem \<Rightarrow> string \<Rightarrow> bool" where
  "os_path_isdir fs p = (case fs p of Some (Dir _) \<Rightarrow> True | _ \<Rightarrow> False)"

text \<open>
  The two artifacts of a saved FAISS index are the files \<open>index.faiss\<close> (the vector
  structure) and \<open>index.pkl\<close> (the document store) inside the index folder.
\<close>

definition has_artifact :: "filesystem \<Rightarrow> string \<Rightarrow> string \<Rightarrow> bool" where
  "has_artifact fs p name =
     (case fs p of
        Some (Dir entries) \<Rightarrow>
          (case map_of entries name of Some (File _) \<Rightarrow> True | _ \<Rightarrow> False)
      | _ \<Rightarrow> False)"

subsection \<open>The libraries and the state they act on\<close>

text \<open>
  The environment is everything outside the two classes: the file system, and whatever else
  the remote services depend on (\<open>ext\<close>).
\<close>

record 'x env =
  fs :: filesystem
  ext :: 'x

text \<open>The prompt value handed to the chat model: a system message and a human message.\<close>

record chat_prompt =
  system_message :: string
  human_message :: string

text \<open>
  One field per library entry point the source calls. An effectful call takes the
  environment and returns an exception or a value, with the environment it leaves behind.
  \<^item> \<open>github_token\<close>: \<open>os.getenv("GITHUB_TOKEN")\<close>;
  \<^item> \<open>openai_embeddings model api_key base_url\<close>: the constructor \<open>OpenAIEmbeddings(...)\<close>;
  \<^item> \<open>url_loader_load urls\<close>: \<open>UnstructuredURLLoader(urls=urls).load()\<close>;
  \<^item> \<open>splitter_split_documents size overlap docs\<close>:
    \<open>RecursiveCharacterTextSplitter(chunk_size, chunk_overlap).split_documents(docs)\<close>;
  \<^item> \<open>faiss_from_documents docs embeddings\<close>: \<open>FAISS.from_documents\<close>;
  \<^item> \<open>faiss_save_local vectorstore path\<close>: \<open>vectorstore.save_local(path)\<close>;
  \<^item> \<open>faiss_load_local path embeddings allow_dangerous_deserialization\<close>: \<open>FAISS.load_local\<close>;
  \<^item> \<open>retriever_invoke vectorstore k question\<close>:
    \<open>vectorstore.as_retriever(search_kwargs={"k": k}).invoke(question)\<close>;
  \<^item> \<open>chat_invoke prompt\<close>: the chat model applied to the formatted prompt, giving the
    \<open>content\<close> of its response.
\<close>

record ('idx, 'emb, 'x) services =
  github_token :: "string option"
  openai_embeddings :: "string \<Rightarrow> string option \<Rightarrow> string \<Rightarrow> exn + 'emb"
  url_loader_load :: "string list \<Rightarrow> 'x env \<Rightarrow> (exn + document list) \<times> 'x env"
  splitter_split_documents :: "nat \<Rightarrow> nat \<Rightarrow> document list \<Rightarrow> document list"
  faiss_from_documents :: "document list \<Rightarrow> 'emb \<Rightarrow> 'x env \<Rightarrow> (exn + 'idx) \<times> 'x env"
  faiss_save_local :: "'idx \<Rightarrow> string \<Rightarrow> 'x env \<Rightarrow> (exn + unit) \<times> 'x env"
  faiss_load_local :: "string \<Rightarrow> 'emb \<Rightarrow> bool \<Rightarrow> 'x env \<Rightarrow> (exn + 'idx) \<times> 'x env"
  retriever_invoke :: "'idx \<Rightarrow> nat \<Rightarrow> string \<Rightarrow> 'x env \<Rightarrow> (exn + document list) \<times> 'x env"
  chat_invoke :: "chat_prompt \<Rightarrow> 'x env \<Rightarrow> (exn + string) \<times> 'x env"

text \<open>The library calls, as they appear in the trace.\<close>

datatype event =
    EvUrlLoad "string list"
  | EvFromDocuments "document list"
  | EvSaveLocal string
  | EvLoadLocal string
  | EvRetrieve string
  | EvChat chat_prompt

text \<open>
  The state threaded through the methods: the field \<open>self.embeddings\<close> of the
  \<open>DocumentProcessor\<close> (\<open>None\<close> until first used), the trace of library calls made so far,
  and the environment.
\<close>

record ('emb, 'x) state =
  self_embeddings :: "'emb option"
  trace :: "event list"
  env :: "'x env"

text \<open>An action: from a state to an exception or a value, and the state afterwards.\<close>

type_synonym ('a, 'emb, 'x) action = "('emb, 'x) state \<Rightarrow> (exn + 'a) \<times> ('emb, 'x) state"

definition ret :: "'a \<Rightarrow> ('a, 'emb, 'x) action" where
  "ret v = (\<lambda>s. (Inr v, s))"

text \<open>Sequencing: an exception raised by the first part skips the rest.\<close>

definition seq :: "('a, 'emb, 'x) action \<Rightarrow> ('a \<Rightarrow> ('b, 'emb, 'x) action) \<Rightarrow> ('b, 'emb, 'x) action" where
  "seq m f = (\<lambda>s. case m s of (Inl e, s') \<Rightarrow> (Inl e, s') | (Inr v, s') \<Rightarrow> f v s')"

text \<open>A library call: it is appended to the trace and acts on the environment.\<close>

definition extern :: "event \<Rightarrow> ('x env \<Rightarrow> (exn + 'a) \<times> 'x env) \<Rightarrow> ('a, 'emb, 'x) action" where
  "extern ev f = (\<lambda>s. case f (env s) of (r, e') \<Rightarrow> (r, s\<lparr>trace := trace s @ [ev], env := e'\<rparr>))"

subsection \<open>\<open>DocumentProcessor\<close>\<close>

text \<open>\<open>_initialize_embeddings\<close>: the client is built on first use and kept in \<open>self.embeddings\<close>.\<close>

definition initialize_embeddings :: "('idx, 'emb, 'x) services \<Rightarrow> ('emb, 'emb, 'x) action" where
  "initialize_embeddings L = (\<lambda>s.
     case self_embeddings s of
       None \<Rightarrow>
         (case openai_embeddings L EMBEDDING_MODEL (github_token L) BASE_URL of
            Inl e \<Rightarrow> (Inl e, s)
          | Inr embeddings \<Rightarrow> (Inr embeddings, s\<lparr>self_embeddings := Some embeddings\<rparr>))
     | Some embeddings \<Rightarrow> (Inr embeddings, s))"

definition load_urls :: "('idx, 'emb, 'x) services \<Rightarrow> string list \<Rightarrow> (document list, 'emb, 'x) action" where
  "load_urls L urls = extern (EvUrlLoad urls) (url_loader_load L urls)"

definition split_documents :: "('idx, 'emb, 'x) services \<Rightarrow> document list \<Rightarrow> (document list, 'emb, 'x) action" where
  "split_documents L documents = ret (splitter_split_documents L CHUNK_SIZE CHUNK_OVERLAP documents)"

definition create_vectorstore :: "('idx, 'emb, 'x) services \<Rightarrow> document list \<Rightarrow> ('idx, 'emb, 'x) action" where
  "create_vectorstore L documents =
     seq (initialize_embeddings L) (\<lambda>embeddings.
       extern (EvFromDocuments documents) (faiss_from_documents L documents embeddings))"

definition save_vectorstore :: "('idx, 'emb, 'x) services \<Rightarrow> 'idx \<Rightarrow> string option \<Rightarrow> (unit, 'emb, 'x) action" where
  "save_vectorstore L vectorstore file_path =
     (let file_path' = (case file_path of
                          None \<Rightarrow> str_replace ''.pkl'' '''' FAISS_INDEX_PATH
                        | Some p \<Rightarrow> p)
      in extern (EvSaveLocal file_path') (faiss_save_local L vectorstore file_path'))"

definition index_exists :: "string option \<Rightarrow> ('emb, 'x) state \<Rightarrow> bool" where
  "index_exists file_path s =
     (let file_path' = (case file_path of
                          None \<Rightarrow> str_replace ''.pkl'' '''' FAISS_INDEX_PATH
                        | Some p \<Rightarrow> p)
      in os_path_exists (fs (env s)) file_path' \<and> os_path_isdir (fs (env s)) file_path')"

text \<open>\<open>load_vectorstore\<close> returns \<open>None\<close> (here \<open>Inr None\<close>) when \<open>index_exists\<close> says no.\<close>

definition load_vectorstore :: "('idx, 'emb, 'x) services \<Rightarrow> string option \<Rightarrow> ('idx option, 'emb, 'x) action" where
  "load_vectorstore L file_path = (\<lambda>s.
     let file_path' = (case file_path of
                         None \<Rightarrow> str_replace ''.pkl'' '''' FAISS_INDEX_PATH
                       | Some p \<Rightarrow> p)
     in if index_exists (Some file_path') s
        then seq (initialize_embeddings L) (\<lambda>embeddings.
               seq (extern (EvLoadLocal file_path') (faiss_load_local L file_path' embeddings True))
                 (\<lambda>vectorstore. ret (Some vectorstore))) s
        else ret None s)"

definition process_urls :: "('idx, 'emb, 'x) services \<Rightarrow> string list \<Rightarrow> bool \<Rightarrow> ('idx \<times> nat \<times> nat, 'emb, 'x) action" where
  "process_urls L urls save_index =
     seq (load_urls L urls) (\<lambda>documents.
       let num_documents = length documents in
       seq (split_documents L documents) (\<lambda>chunks.
         let num_chunks = length chunks in
         seq (create_vectorstore L chunks) (\<lambda>vectorstore.
           seq (if save_index then save_vectorstore L vectorstore None else ret ())
             (\<lambda>_. ret (vectorstore, num_documents, num_chunks)))))"

subsection \<open>\<open>QAChain\<close>\<close>

text \<open>
  The fields of a \<open>QAChain\<close> that its methods read: the vector store and the \<open>k\<close> of the
  retriever made from it in \<open>__init__\<close>. The chat model and the prompt template are fixed
  there too; the model is the library call \<open>chat_invoke\<close>, the template is below.
\<close>

record 'idx qa_chain =
  vectorstore :: 'idx
  retriever_k :: nat

definition new_qa_chain :: "'idx \<Rightarrow> 'idx qa_chain" where
  "new_qa_chain vs = \<lparr>vectorstore = vs, retriever_k = RETRIEVAL_K\<rparr>"

text \<open>The system message of \<open>self.prompt\<close> up to its placeholder \<open>{context}\<close>.\<close>

definition SYSTEM_TEMPLATE :: string where
  "SYSTEM_TEMPLATE =
     ''You are a helpful assistant that answers questions based on the provided context.'' @
     ''\<newline>Use the following pieces of context to answer the question at the end.'' @
     ''\<newline>If you don'' @ [CHR 0x27] @ ''t know the answer, just say that you don'' @ [CHR 0x27] @
     ''t know, don'' @ [CHR 0x27] @ ''t try to make up an answer.'' @
     ''\<newline>\<newline>Context: ''"

text \<open>\<open>self.prompt\<close> applied to \<open>{"context": ..., "question": ...}\<close>.\<close>

definition prompt_format :: "string \<Rightarrow> string \<Rightarrow> chat_prompt" where
  "prompt_format context question =
     \<lparr>system_message = SYSTEM_TEMPLATE @ context, human_message = question\<rparr>"

text \<open>\<open>_format_docs\<close>.\<close>

definition format_docs :: "document list \<Rightarrow> string" where
  "format_docs docs = str_join ''\<newline>\<newline>'' (map page_content docs)"

text \<open>\<open>self.retriever.invoke(question)\<close>.\<close>

definition retrieve :: "('idx, 'emb, 'x) services \<Rightarrow> 'idx qa_chain \<Rightarrow> string \<Rightarrow> (document list, 'emb, 'x) action" where
  "retrieve L qa question =
     extern (EvRetrieve question) (retriever_invoke L (vectorstore qa) (retriever_k qa) question)"

text \<open>
  \<open>self.chain.invoke(question)\<close>, the chain built by \<open>_create_chain\<close>: the retriever piped
  into \<open>_format_docs\<close> gives the context, the question is passed through, the prompt is
  formatted from both and handed to the chat model.
\<close>

definition chain_invoke :: "('idx, 'emb, 'x) services \<Rightarrow> 'idx qa_chain \<Rightarrow> string \<Rightarrow> (string, 'emb, 'x) action" where
  "chain_invoke L qa question =
     seq (retrieve L qa question) (\<lambda>docs.
       let context = format_docs docs;
           prompt = prompt_format context question
       in extern (EvChat prompt) (chat_invoke L prompt))"

definition ask :: "('idx, 'emb, 'x) services \<Rightarrow> 'idx qa_chain \<Rightarrow> string \<Rightarrow> (string, 'emb, 'x) action" where
  "ask L qa question = seq (chain_invoke L qa question) (\<lambda>response_content. ret response_content)"

text \<open>
  The test \<open>hasattr(doc, 'metadata') and 'source' in doc.metadata\<close> together with the read
  \<open>doc.metadata['source']\<close>.
\<close>

definition doc_source :: "document \<Rightarrow> string option" where
  "doc_source doc = (case metadata doc of None \<Rightarrow> None | Some md \<Rightarrow> map_of md ''source'')"

text \<open>
  The loop of \<open>ask_with_sources\<close> over the retrieved documents, with its two variables
  \<open>sources\<close> (a list) and \<open>seen_sources\<close> (a set).
\<close>

fun collect_sources :: "document list \<Rightarrow> string list \<Rightarrow> string set \<Rightarrow> string list" where
  "collect_sources [] sources seen_sources = sources"
| "collect_sources (doc # docs) sources seen_sources =
     (case doc_source doc of
        None \<Rightarrow> collect_sources docs sources seen_sources
      | Some source \<Rightarrow>
          if source \<notin> seen_sources
          then collect_sources docs (sources @ [source]) (insert source seen_sources)
          else collect_sources docs sources seen_sources)"

text \<open>
  Python values of the two shapes that matter for the \<open>sources\<close> entry of the result: a
  string and a list of strings.
\<close>

datatype py_value = PyStr string | PyList "string list"

record qa_result =
  answer :: string
  sources :: py_value

definition ask_with_sources :: "('idx, 'emb, 'x) services \<Rightarrow> 'idx qa_chain \<Rightarrow> string \<Rightarrow> (qa_result, 'emb, 'x) action" where
  "ask_with_sources L qa question =
     seq (retrieve L qa question) (\<lambda>docs.
       seq (ask L qa question) (\<lambda>answer'.
         let sources' = collect_sources docs [] {}
         in ret \<lparr>answer = answer',
                 sources = (if sources' \<noteq> [] then PyStr (str_join ''\<newline>'' sources')
                            else PyStr ''No sources available'')\<rparr>))"

definition get_relevant_documents :: "('idx, 'emb, 'x) services \<Rightarrow> 'idx qa_chain \<Rightarrow> string \<Rightarrow> (document list, 'emb, 'x) action" where
  "get_relevant_documents L qa question = retrieve L qa question"

subsection \<open>Notions used to state the properties\<close>

text \<open>The source identifiers carried by a list of retrieved documents, in retrieval order.\<close>

definition source_ids :: "document list \<Rightarrow> string list" where
  "source_ids docs = List.map_filter doc_source docs"

text \<open>
  The distinct elements of a list in first-occurrence order, said by positions: the
  element at position \<open>i\<close> is kept when it does not occur before \<open>i\<close>. The variant with a
  set \<open>seen\<close> also drops the elements of that set.
\<close>

definition unseen_occurrences :: "'a set \<Rightarrow> 'a list \<Rightarrow> 'a list" where
  "unseen_occurrences seen xs =
     map (\<lambda>i. xs ! i) (filter (\<lambda>i. xs ! i \<notin> seen \<union> set (take i xs)) [0..<length xs])"

definition first_occurrences :: "'a list \<Rightarrow> 'a list" where
  "first_occurrences xs =
     map (\<lambda>i. xs ! i) (filter (\<lambda>i. xs ! i \<notin> set (take i xs)) [0..<length xs])"

text \<open>How often a trace asks the retriever, and how often it saves an index.\<close>

fun is_retrieve :: "event \<Rightarrow> bool" where
  "is_retrieve (EvRetrieve _) = True"
| "is_retrieve _ = False"

fun is_save :: "event \<Rightarrow> bool" where
  "is_save (EvSaveLocal _) = True"
| "is_save _ = False"

definition retrieval_count :: "event list \<Rightarrow> nat" where
  "retrieval_count tr = length (filter is_retrieve tr)"

definition save_count :: "event list \<Rightarrow> nat" where
  "save_count tr = length (filter is_save tr)"

text \<open>The \<open>sources\<close> entry of an outcome of \<open>ask_with_sources\<close>, when there is one.\<close>

definition result_sources :: "exn + qa_result \<Rightarrow> py_value option" where
  "result_sources r = (case r of Inl _ \<Rightarrow> None | Inr res \<Rightarrow> Some (sources res))"

text \<open>
  The pipeline of \<open>process_urls\<close> written out stage by stage: load, split what was loaded,
  index what was split, save when asked to, and return the index with the two lengths. An
  exception of a stage is the outcome of the whole.
\<close>

definition process_urls_spec :: "('idx, 'emb, 'x) services \<Rightarrow> string list \<Rightarrow> bool \<Rightarrow> ('idx \<times> nat \<times> nat, 'emb, 'x) action" where
  "process_urls_spec L urls save_index = (\<lambda>s.
     case load_urls L urls s of
       (Inl e, s1) \<Rightarrow> (Inl e, s1)
     | (Inr documents, s1) \<Rightarrow>
         (case split_documents L documents s1 of
            (Inl e, s2) \<Rightarrow> (Inl e, s2)
          | (Inr chunks, s2) \<Rightarrow>
              (case create_vectorstore L chunks s2 of
                 (Inl e, s3) \<Rightarrow> (Inl e, s3)
               | (Inr vs, s3) \<Rightarrow>
                   if save_index
                   then (case save_vectorstore L vs None s3 of
                           (Inl e, s4) \<Rightarrow> (Inl e, s4)
                         | (Inr _, s4) \<Rightarrow> (Inr (vs, length documents, length chunks), s4))
                   else (Inr (vs, length documents, length chunks), s3))))"

subsection \<open>A small instance of the libraries\<close>

text \<open>
  An instance on which the theorems below are run: the index is the list of its chunks,
  the retriever returns the first \<open>k\<close> of them, the loader makes one document per URL, the
  splitter keeps documents whole, saving writes the index folder with its two files and
  remembers the index under the path (in \<open>ext\<close>), loading reads it back when both files are
  there, and the chat model always gives the same answer.
\<close>

definition toy_folder :: node where
  "toy_folder = Dir [(''index.faiss'', File ''vectors''), (''index.pkl'', File ''docstore'')]"

definition toy_services :: "(document list, unit, string \<Rightarrow> document list option) services" where
  "toy_services =
     \<lparr>github_token = Some ''token'',
      openai_embeddings = (\<lambda>model api_key base_url. Inr ()),
      url_loader_load = (\<lambda>urls e.
        (Inr (map (\<lambda>u. \<lparr>page_content = ''text of '' @ u, metadata = Some [(''source'', u)]\<rparr>) urls), e)),
      splitter_split_documents = (\<lambda>size overlap docs. docs),
      faiss_from_documents = (\<lambda>docs embeddings e. (Inr docs, e)),
      faiss_save_local = (\<lambda>vs p e.
        (Inr (), e\<lparr>fs := (fs e)(p := Some toy_folder), ext := (ext e)(p := Some vs)\<rparr>)),
      faiss_load_local = (\<lambda>p embeddings allow e.
        (if allow \<and> has_artifact (fs e) p ''index.faiss'' \<and> has_artifact (fs e) p ''index.pkl''
         then (case ext e p of
                 Some vs \<Rightarrow> Inr vs
               | None \<Rightarrow> Inl (Exception ''cannot read the index''))
         else Inl (Exception ''cannot read the index''), e)),
      retriever_invoke = (\<lambda>vs k question e. (Inr (take k vs), e)),
      chat_invoke = (\<lambda>prompt e. (Inr ''I do not know.'', e))\<rparr>"

text \<open>A state with the given file system, no embedding client yet and an empty trace.\<close>

definition toy_state :: "filesystem \<Rightarrow> (unit, string \<Rightarrow> document list option) state" where
  "toy_state files =
     \<lparr>self_embeddings = None, trace = [], env = \<lparr>fs = files, ext = (\<lambda>p. None)\<rparr>\<rparr>"

text \<open>Chunks from the sources A, B, A; and chunks that carry no source.\<close>

definition abc_chunks :: "document list" where
  "abc_chunks =
     [\<lparr>page_content = ''one'', metadata = Some [(''source'', ''A'')]\<rparr>,
      \<lparr>page_content = ''two'', metadata = Some [(''source'', ''B'')]\<rparr>,
      \<lparr>page_content = ''three'', metadata = Some [(''source'', ''A'')]\<rparr>]"

definition anonymous_chunks :: "document list" where
  "anonymous_chunks =
     [\<lparr>page_content = ''one'', metadata = Some [(''title'', ''T'')]\<rparr>,
      \<lparr>page_content = ''two'', metadata = None\<rparr>]"

text \<open>No file at all; a directory without any file; a directory with the vector file only.\<close>

definition empty_fs :: filesystem where
  "empty_fs = (\<lambda>p. None)"

definition empty_folder_fs :: filesystem where
  "empty_folder_fs = (\<lambda>p. if p = ''faiss_store_openai'' then Some (Dir []) else None)"

definition half_written_fs :: filesystem where
  "half_written_fs =
     (\<lambda>p. if p = ''faiss_store_openai''
          then Some (Dir [(''index.faiss'', File ''vectors'')]) else None)"

text \<open>
  A second instance, in which the index moves between two queries: \<open>ext\<close> counts the
  queries made so far, and the retriever skips that many chunks before it takes \<open>k\<close>.
\<close>

definition drifting_services :: "(document list, unit, nat) services" where
  "drifting_services =
     \<lparr>github_token = None,
      openai_embeddings = (\<lambda>model api_key base_url. Inr ()),
      url_loader_load = (\<lambda>urls e. (Inr [], e)),
      splitter_split_documents = (\<lambda>size overlap docs. docs),
      faiss_from_documents = (\<lambda>docs embeddings e. (Inr docs, e)),
      faiss_save_local = (\<lambda>vs p e. (Inr (), e)),
      faiss_load_local = (\<lambda>p embeddings allow e. (Inl (Exception ''cannot read the index''), e)),
      retriever_invoke = (\<lambda>vs k question e. (Inr (take k (drop (ext e) vs)), e\<lparr>ext := Suc (ext e)\<rparr>)),
      chat_invoke = (\<lambda>prompt e. (Inr ''I do not know.'', e))\<rparr>"

definition drifting_state :: "(unit, nat) state" where
  "drifting_state = \<lparr>self_embeddings = None, trace = [], env = \<lparr>fs = empty_fs, ext = 0\<rparr>\<rparr>"

definition abcd_chunks :: "document list" where
  "abcd_chunks =
     [\<lparr>page_content = ''one'', metadata = Some [(''source'', ''A'')]\<rparr>,
      \<lparr>page_content = ''two'', metadata = Some [(''source'', ''B'')]\<rparr>,
      \<lparr>page_content = ''three'', metadata = Some [(''source'', ''C'')]\<rparr>,
      \<lparr>page_content = ''four'', metadata = Some [(''source'', ''D'')]\<rparr>]"

text \<open>An instance whose embedding client cannot be built.\<close>

definition keyless_services :: "(document list, unit, string \<Rightarrow> document list option) services" where
  "keyless_services =
     toy_services\<lparr>openai_embeddings := (\<lambda>model api_key base_url. Inl (Exception ''no api key''))\<rparr>"

text \<open>A regular file where the index folder would be.\<close>

definition regular_file_fs :: filesystem where
  "regular_file_fs = (\<lambda>p. if p = ''faiss_store_openai'' then Some (File ''bytes'') else None)"

section \<open>Properties\<close>

subsection \<open>Sequencing, library calls and the trace\<close>

lemma seq_Inr: "m s = (Inr v, s') \<Longrightarrow> seq m f s = f v s'"
  by (simp add: seq_def)

lemma seq_Inl: "m s = (Inl e, s') \<Longrightarrow> seq m f s = (Inl e, s')"
  by (simp add: seq_def)

lemma extern_result:
  "f (env s) = (r, e') \<Longrightarrow> extern ev f s = (r, s\<lparr>trace := trace s @ [ev], env := e'\<rparr>)"
  by (simp add: extern_def)

lemma extern_trace: "extern ev f s = (r, s') \<Longrightarrow> trace s' = trace s @ [ev]"
  by (auto simp: extern_def split: prod.splits)

lemma initialize_embeddings_trace:
  "initialize_embeddings L s = (r, s') \<Longrightarrow> trace s' = trace s \<and> env s' = env s"
  by (auto simp: initialize_embeddings_def split: option.splits sum.splits)

lemma load_urls_trace: "load_urls L urls s = (r, s') \<Longrightarrow> trace s' = trace s @ [EvUrlLoad urls]"
  unfolding load_urls_def by (rule extern_trace)

lemma split_documents_state: "split_documents L docs s = (r, s') \<Longrightarrow> s' = s"
  by (simp add: split_documents_def ret_def)

lemma create_vectorstore_trace:
  assumes "create_vectorstore L chunks s = (Inr vs, s')"
  shows "trace s' = trace s @ [EvFromDocuments chunks]"
proof -
  from assms obtain emb s1 where
    i: "initialize_embeddings L s = (Inr emb, s1)" and
    x: "extern (EvFromDocuments chunks) (faiss_from_documents L chunks emb) s1 = (Inr vs, s')"
    by (auto simp: create_vectorstore_def seq_def split: prod.splits sum.splits)
  from initialize_embeddings_trace[OF i] extern_trace[OF x] show ?thesis by simp
qed

text \<open>The default path: \<open>FAISS_INDEX_PATH.replace('.pkl', '')\<close>.\<close>

lemma default_path: "str_replace ''.pkl'' '''' FAISS_INDEX_PATH = ''faiss_store_openai''"
  by (simp add: FAISS_INDEX_PATH_def)

lemma save_vectorstore_trace:
  "save_vectorstore L vs None s = (r, s') \<Longrightarrow> trace s' = trace s @ [EvSaveLocal ''faiss_store_openai'']"
  by (simp add: save_vectorstore_def default_path Let_def) (erule extern_trace)

text \<open>
  What the wrappers around the loader and the splitter add to the library call: nothing.
  \<open>load_urls\<close> makes one call to the loader and returns or raises what that call returns or
  raises; \<open>split_documents\<close> hands the documents to the splitter configured with a chunk
  size of 1000 and an overlap of 200.
\<close>

lemma load_urls_transparent:
  "url_loader_load L urls (env s) = (r, e')
     \<Longrightarrow> load_urls L urls s = (r, s\<lparr>trace := trace s @ [EvUrlLoad urls], env := e'\<rparr>)"
  by (simp add: load_urls_def extern_result)

lemma split_documents_configured:
  "split_documents L docs s = (Inr (splitter_split_documents L 1000 200 docs), s)"
  by (simp add: split_documents_def ret_def CHUNK_SIZE_def CHUNK_OVERLAP_def)

subsection \<open>The loop that collects the sources\<close>

lemma unseen_Nil: "unseen_occurrences seen [] = []"
  by (simp add: unseen_occurrences_def)

lemma unseen_Cons:
  "unseen_occurrences seen (x # xs) =
     (if x \<in> seen then unseen_occurrences seen xs else x # unseen_occurrences (insert x seen) xs)"
proof -
  have upt: "[0..<length (x # xs)] = 0 # map Suc [0..<length xs]"
    by (simp add: upt_conv_Cons map_Suc_upt del: upt_Suc)
  have P: "(\<lambda>i. (x # xs) ! Suc i \<notin> seen \<union> set (take (Suc i) (x # xs)))
             = (\<lambda>i. xs ! i \<notin> insert x seen \<union> set (take i xs))"
    by (rule ext) auto
  have "map (\<lambda>i. (x # xs) ! i)
          (filter (\<lambda>i. (x # xs) ! i \<notin> seen \<union> set (take i (x # xs))) (map Suc [0..<length xs]))
        = map (\<lambda>i. (x # xs) ! Suc i)
            (filter (\<lambda>i. (x # xs) ! Suc i \<notin> seen \<union> set (take (Suc i) (x # xs))) [0..<length xs])"
    by (simp only: filter_map map_map comp_def)
  also have "\<dots> = unseen_occurrences (insert x seen) xs"
    unfolding P unseen_occurrences_def by simp
  finally have tl: "map (\<lambda>i. (x # xs) ! i)
              (filter (\<lambda>i. (x # xs) ! i \<notin> seen \<union> set (take i (x # xs))) (map Suc [0..<length xs]))
            = unseen_occurrences (insert x seen) xs" .
  have hd: "unseen_occurrences seen (x # xs)
              = (if x \<in> seen then [] else [x])
                @ map (\<lambda>i. (x # xs) ! i)
                    (filter (\<lambda>i. (x # xs) ! i \<notin> seen \<union> set (take i (x # xs)))
                       (map Suc [0..<length xs]))"
    unfolding unseen_occurrences_def upt by simp
  show ?thesis
  proof (cases "x \<in> seen")
    case True
    then have "insert x seen = seen" by auto
    with True show ?thesis unfolding hd tl by simp
  next
    case False
    then show ?thesis unfolding hd tl by simp
  qed
qed

lemma source_ids_Nil: "source_ids [] = []"
  by (simp add: source_ids_def List.map_filter_simps)

lemma source_ids_Cons:
  "source_ids (d # ds) = (case doc_source d of None \<Rightarrow> source_ids ds | Some x \<Rightarrow> x # source_ids ds)"
  by (cases "doc_source d") (simp_all add: source_ids_def List.map_filter_simps)

text \<open>
  The loop, started from any \<open>sources\<close> and \<open>seen_sources\<close>, appends the identifiers not
  seen so far, each at its first occurrence.
\<close>

lemma collect_sources_unseen:
  "collect_sources docs acc seen = acc @ unseen_occurrences seen (source_ids docs)"
proof (induction docs arbitrary: acc seen)
  case Nil
  show ?case by (simp add: source_ids_Nil unseen_Nil)
next
  case (Cons d ds)
  show ?case
  proof (cases "doc_source d")
    case None
    then show ?thesis using Cons.IH by (simp add: source_ids_Cons)
  next
    case (Some x)
    then show ?thesis using Cons.IH by (simp add: source_ids_Cons unseen_Cons)
  qed
qed

lemma unseen_set: "set (unseen_occurrences seen xs) = set xs - seen"
  by (induction xs arbitrary: seen) (auto simp: unseen_Nil unseen_Cons)

lemma unseen_distinct: "distinct (unseen_occurrences seen xs)"
  by (induction xs arbitrary: seen) (auto simp: unseen_Nil unseen_Cons unseen_set)

lemma first_unseen: "first_occurrences xs = unseen_occurrences {} xs"
  by (simp add: first_occurrences_def unseen_occurrences_def)

lemma collect_sources_first: "collect_sources docs [] {} = first_occurrences (source_ids docs)"
  by (simp add: collect_sources_unseen first_unseen)

lemma first_occurrences_set: "set (first_occurrences xs) = set xs"
  by (simp add: first_unseen unseen_set)

lemma first_occurrences_distinct: "distinct (first_occurrences xs)"
  by (simp add: first_unseen unseen_distinct)

lemma first_occurrences_empty: "first_occurrences xs = [] \<longleftrightarrow> xs = []"
  using first_occurrences_set[of xs] by (metis set_empty)

lemma source_ids_empty: "source_ids docs = [] \<longleftrightarrow> (\<forall>d \<in> set docs. doc_source d = None)"
  by (induction docs) (auto simp: source_ids_Nil source_ids_Cons split: option.splits)

subsection \<open>The steps of \<open>ask_with_sources\<close>\<close>

lemma retrieve_result:
  "retriever_invoke L (vectorstore qa) (retriever_k qa) q (env s) = (r, e')
     \<Longrightarrow> retrieve L qa q s = (r, s\<lparr>trace := trace s @ [EvRetrieve q], env := e'\<rparr>)"
  by (simp add: retrieve_def extern_result)

lemma ask_result:
  assumes "retrieve L qa q s = (Inr docs, s1)"
    and "chat_invoke L (prompt_format (format_docs docs) q) (env s1) = (Inr a, e')"
  shows "ask L qa q s =
           (Inr a, s1\<lparr>trace := trace s1 @ [EvChat (prompt_format (format_docs docs) q)], env := e'\<rparr>)"
  using assms by (simp add: ask_def chain_invoke_def seq_def ret_def Let_def extern_result)

lemma ask_with_sources_result:
  assumes "retrieve L qa q s = (Inr docs, s1)" and "ask L qa q s1 = (Inr a, s2)"
  shows "ask_with_sources L qa q s =
           (Inr \<lparr>answer = a,
                 sources = (if source_ids docs = [] then PyStr ''No sources available''
                            else PyStr (str_join ''\<newline>'' (first_occurrences (source_ids docs))))\<rparr>,
            s2)"
  using assms
  by (simp add: ask_with_sources_def seq_def ret_def Let_def collect_sources_first
      first_occurrences_empty)

subsection \<open>The instances, evaluated\<close>

lemmas action_defs = seq_def ret_def extern_def Let_def

lemmas toy_defs = toy_services_def toy_state_def toy_folder_def empty_fs_def
  os_path_exists_def os_path_isdir_def has_artifact_def

lemma abc_source_ids: "source_ids abc_chunks = [''A'', ''B'', ''A'']"
  by (simp add: abc_chunks_def source_ids_Cons source_ids_Nil doc_source_def)

lemma abc_first_occurrences: "first_occurrences [''A'', ''B'', ''A''] = [''A'', ''B'']"
  by (simp add: first_unseen unseen_Cons unseen_Nil)

lemma abc_context: "format_docs abc_chunks = ''one\<newline>\<newline>two\<newline>\<newline>three''"
  by (simp add: format_docs_def abc_chunks_def)

lemma toy_retrieve:
  "retriever_invoke toy_services (vectorstore (new_qa_chain abc_chunks))
       (retriever_k (new_qa_chain abc_chunks)) q e = (Inr abc_chunks, e)"
  by (simp add: toy_services_def new_qa_chain_def RETRIEVAL_K_def abc_chunks_def)

lemma toy_retrieve_anonymous:
  "retriever_invoke toy_services (vectorstore (new_qa_chain anonymous_chunks))
       (retriever_k (new_qa_chain anonymous_chunks)) q e = (Inr anonymous_chunks, e)"
  by (simp add: toy_services_def new_qa_chain_def RETRIEVAL_K_def anonymous_chunks_def)

lemma toy_chat: "chat_invoke toy_services p e = (Inr ''I do not know.'', e)"
  by (simp add: toy_services_def)

lemma toy_retrieve_step:
  "retrieve toy_services (new_qa_chain abc_chunks) q s
     = (Inr abc_chunks, s\<lparr>trace := trace s @ [EvRetrieve q], env := env s\<rparr>)"
  by (rule retrieve_result) (rule toy_retrieve)

lemma toy_retrieve_anonymous_step:
  "retrieve toy_services (new_qa_chain anonymous_chunks) q s
     = (Inr anonymous_chunks, s\<lparr>trace := trace s @ [EvRetrieve q], env := env s\<rparr>)"
  by (rule retrieve_result) (rule toy_retrieve_anonymous)

lemma toy_ask_step:
  "ask toy_services (new_qa_chain abc_chunks) q s
     = (Inr ''I do not know.'',
        s\<lparr>trace := trace s @ [EvRetrieve q, EvChat (prompt_format (format_docs abc_chunks) q)],
          env := env s\<rparr>)"
  using ask_result[OF toy_retrieve_step toy_chat, of q s] by simp

lemma toy_ask_anonymous_step:
  "ask toy_services (new_qa_chain anonymous_chunks) q s
     = (Inr ''I do not know.'',
        s\<lparr>trace := trace s @ [EvRetrieve q, EvChat (prompt_format (format_docs anonymous_chunks) q)],
          env := env s\<rparr>)"
  using ask_result[OF toy_retrieve_anonymous_step toy_chat, of q s] by simp

lemma toy_ask_with_sources:
  "ask_with_sources toy_services (new_qa_chain abc_chunks) ''which?'' (toy_state empty_fs)
     = (Inr \<lparr>answer = ''I do not know.'', sources = PyStr ''A\<newline>B''\<rparr>,
        (toy_state empty_fs)\<lparr>trace := [EvRetrieve ''which?'', EvRetrieve ''which?'',
             EvChat (prompt_format ''one\<newline>\<newline>two\<newline>\<newline>three'' ''which?'')]\<rparr>)"
proof -
  let ?qa = "new_qa_chain abc_chunks" and ?s = "toy_state empty_fs"
  let ?s1 = "?s\<lparr>trace := trace ?s @ [EvRetrieve ''which?''], env := env ?s\<rparr>"
  let ?s2 = "?s1\<lparr>trace := trace ?s1 @ [EvRetrieve ''which?''], env := env ?s1\<rparr>"
  let ?p = "prompt_format (format_docs abc_chunks) ''which?''"
  have r1: "retrieve toy_services ?qa ''which?'' ?s = (Inr abc_chunks, ?s1)"
    by (rule retrieve_result) (rule toy_retrieve)
  have r2: "retrieve toy_services ?qa ''which?'' ?s1 = (Inr abc_chunks, ?s2)"
    by (rule retrieve_result) (rule toy_retrieve)
  have a: "ask toy_services ?qa ''which?'' ?s1
             = (Inr ''I do not know.'', ?s2\<lparr>trace := trace ?s2 @ [EvChat ?p], env := env ?s2\<rparr>)"
    using r2 by (rule ask_result) (rule toy_chat)
  show ?thesis
    using ask_with_sources_result[OF r1 a]
    by (simp add: abc_source_ids abc_first_occurrences abc_context toy_state_def)
qed

lemma anonymous_no_source: "\<forall>d \<in> set anonymous_chunks. doc_source d = None"
  by (simp add: anonymous_chunks_def doc_source_def)

lemma toy_initialize:
  "initialize_embeddings toy_services (toy_state files)
     = (Inr (), (toy_state files)\<lparr>self_embeddings := Some ()\<rparr>)"
  by (simp add: initialize_embeddings_def toy_services_def toy_state_def)

lemma toy_save:
  "save_vectorstore toy_services abc_chunks None (toy_state empty_fs)
     = (Inr (),
        \<lparr>self_embeddings = None, trace = [EvSaveLocal ''faiss_store_openai''],
         env = \<lparr>fs = empty_fs(''faiss_store_openai'' := Some toy_folder),
                ext = (\<lambda>p. None)(''faiss_store_openai'' := Some abc_chunks)\<rparr>\<rparr>)"
  by (simp add: save_vectorstore_def default_path extern_def Let_def toy_services_def toy_state_def)

lemma toy_process_urls:
  "fst (process_urls toy_services [''http://a'', ''http://b''] True (toy_state empty_fs))
     = Inr ([\<lparr>page_content = ''text of http://a'', metadata = Some [(''source'', ''http://a'')]\<rparr>,
             \<lparr>page_content = ''text of http://b'', metadata = Some [(''source'', ''http://b'')]\<rparr>],
            2, 2)"
  by (simp add: process_urls_def load_urls_def split_documents_def create_vectorstore_def
      save_vectorstore_def initialize_embeddings_def default_path action_defs
      toy_services_def toy_state_def)

subsection \<open>Retrieval in \<open>ask_with_sources\<close>\<close>

text \<open>
  Claim C1 says that \<open>ask_with_sources\<close> asks the retriever exactly once and derives both
  the context of the prompt and the list of sources from that one result. The code asks
  twice: \<open>ask_with_sources\<close> calls \<open>self.retriever.invoke(question)\<close> itself, for the
  sources, and then calls \<open>self.ask(question)\<close>, whose chain asks the retriever again, for
  the context.

  C1 as the code has it: when both retrievals and the chat model return, \<open>ask_with_sources\<close>
  returns the model's answer together with the sources of the chunks of the \<^emph>\<open>first\<close>
  retrieval; it has made exactly two retrievals for the question, followed by one call of
  the chat model whose prompt holds the formatted chunks of the \<^emph>\<open>second\<close> retrieval; and
  when the two retrievals returned the same chunks, the prompt holds exactly the chunks the
  sources were taken from.
\<close>

theorem ask_with_sources_retrieves_twice:
  assumes "retriever_invoke L (vectorstore qa) (retriever_k qa) q (env s) = (Inr docs1, e1)"
    and "retriever_invoke L (vectorstore qa) (retriever_k qa) q e1 = (Inr docs2, e2)"
    and "chat_invoke L (prompt_format (format_docs docs2) q) e2 = (Inr a, e3)"
  shows "ask_with_sources L qa q s =
           (Inr \<lparr>answer = a,
                 sources = (if source_ids docs1 = [] then PyStr ''No sources available''
                            else PyStr (str_join ''\<newline>'' (first_occurrences (source_ids docs1))))\<rparr>,
            s\<lparr>trace := trace s @ [EvRetrieve q, EvRetrieve q,
                                   EvChat (prompt_format (format_docs docs2) q)],
              env := e3\<rparr>)
         \<and> retrieval_count (trace (snd (ask_with_sources L qa q s))) = retrieval_count (trace s) + 2
         \<and> (docs2 = docs1 \<longrightarrow>
              last (trace (snd (ask_with_sources L qa q s))) = EvChat (prompt_format (format_docs docs1) q))"
proof -
  let ?s1 = "s\<lparr>trace := trace s @ [EvRetrieve q], env := e1\<rparr>"
  let ?s2 = "?s1\<lparr>trace := trace ?s1 @ [EvRetrieve q], env := e2\<rparr>"
  let ?p = "prompt_format (format_docs docs2) q"
  let ?s3 = "?s2\<lparr>trace := trace ?s2 @ [EvChat ?p], env := e3\<rparr>"
  have r1: "retrieve L qa q s = (Inr docs1, ?s1)"
    using assms(1) by (rule retrieve_result)
  have r2: "retrieve L qa q ?s1 = (Inr docs2, ?s2)"
    using assms(2) by (intro retrieve_result) simp
  have a: "ask L qa q ?s1 = (Inr a, ?s3)"
    using r2 assms(3) by (intro ask_result) simp_all
  have res: "ask_with_sources L qa q s =
           (Inr \<lparr>answer = a,
                 sources = (if source_ids docs1 = [] then PyStr ''No sources available''
                            else PyStr (str_join ''\<newline>'' (first_occurrences (source_ids docs1))))\<rparr>,
            s\<lparr>trace := trace s @ [EvRetrieve q, EvRetrieve q, EvChat ?p], env := e3\<rparr>)"
    using ask_with_sources_result[OF r1 a] by simp
  then show ?thesis by (simp add: retrieval_count_def)
qed

text \<open>The theorem on the small instance, whose retriever answers every query alike.\<close>

theorem ask_with_sources_retrieves_twice_witness:
  "retriever_invoke toy_services (vectorstore (new_qa_chain abc_chunks))
       (retriever_k (new_qa_chain abc_chunks)) ''which?'' (env (toy_state empty_fs))
     = (Inr abc_chunks, env (toy_state empty_fs))
   \<and> chat_invoke toy_services (prompt_format (format_docs abc_chunks) ''which?'') (env (toy_state empty_fs))
     = (Inr ''I do not know.'', env (toy_state empty_fs))
   \<and> fst (ask_with_sources toy_services (new_qa_chain abc_chunks) ''which?'' (toy_state empty_fs))
     = Inr \<lparr>answer = ''I do not know.'', sources = PyStr ''A\<newline>B''\<rparr>
   \<and> retrieval_count (trace (snd (ask_with_sources toy_services (new_qa_chain abc_chunks) ''which?''
        (toy_state empty_fs))))
     = retrieval_count (trace (toy_state empty_fs)) + 2
   \<and> last (trace (snd (ask_with_sources toy_services (new_qa_chain abc_chunks) ''which?''
        (toy_state empty_fs))))
     = EvChat (prompt_format (format_docs abc_chunks) ''which?'')"
proof -
  have h1: "retriever_invoke toy_services (vectorstore (new_qa_chain abc_chunks))
       (retriever_k (new_qa_chain abc_chunks)) ''which?'' (env (toy_state empty_fs))
     = (Inr abc_chunks, env (toy_state empty_fs))"
    by (rule toy_retrieve)
  have h3: "chat_invoke toy_services (prompt_format (format_docs abc_chunks) ''which?'') (env (toy_state empty_fs))
     = (Inr ''I do not know.'', env (toy_state empty_fs))"
    by (rule toy_chat)
  show ?thesis
    using h1 h3 ask_with_sources_retrieves_twice[OF h1 h1 h3]
    by (simp add: abc_source_ids abc_first_occurrences retrieval_count_def)
qed

text \<open>On the small instance one question costs two retrievals, not one.\<close>

theorem ask_with_sources_single_retrieval_counterexample:
  "retrieval_count (trace (snd (ask_with_sources toy_services (new_qa_chain abc_chunks) ''which?''
       (toy_state empty_fs)))) = 2
   \<and> retrieval_count (trace (snd (ask_with_sources toy_services (new_qa_chain abc_chunks) ''which?''
       (toy_state empty_fs)))) \<noteq> retrieval_count (trace (toy_state empty_fs)) + 1"
  unfolding toy_ask_with_sources by (simp add: retrieval_count_def toy_state_def)

text \<open>
  When the index moves between the two retrievals, the sources name a chunk (\<open>one\<close>, from A)
  that the prompt does not hold, and miss one (\<open>four\<close>, from D) that it holds.
\<close>

lemma ask_with_sources_drifting_retriever:
  "ask_with_sources drifting_services (new_qa_chain abcd_chunks) ''which?'' drifting_state
     = (Inr \<lparr>answer = ''I do not know.'', sources = PyStr ''A\<newline>B\<newline>C''\<rparr>,
        \<lparr>self_embeddings = None,
         trace = [EvRetrieve ''which?'', EvRetrieve ''which?'',
                  EvChat (prompt_format ''two\<newline>\<newline>three\<newline>\<newline>four'' ''which?'')],
         env = \<lparr>fs = empty_fs, ext = 2\<rparr>\<rparr>)"
proof -
  let ?qa = "new_qa_chain abcd_chunks"
  let ?s1 = "drifting_state\<lparr>trace := trace drifting_state @ [EvRetrieve ''which?''],
                            env := \<lparr>fs = empty_fs, ext = 1\<rparr>\<rparr>"
  let ?s2 = "?s1\<lparr>trace := trace ?s1 @ [EvRetrieve ''which?''], env := \<lparr>fs = empty_fs, ext = 2\<rparr>\<rparr>"
  let ?p = "prompt_format (format_docs (tl abcd_chunks)) ''which?''"
  have r1: "retrieve drifting_services ?qa ''which?'' drifting_state = (Inr (butlast abcd_chunks), ?s1)"
    by (rule retrieve_result)
      (simp add: drifting_services_def drifting_state_def new_qa_chain_def RETRIEVAL_K_def
        abcd_chunks_def)
  have r2: "retrieve drifting_services ?qa ''which?'' ?s1 = (Inr (tl abcd_chunks), ?s2)"
    by (rule retrieve_result)
      (simp add: drifting_services_def drifting_state_def new_qa_chain_def RETRIEVAL_K_def
        abcd_chunks_def)
  have a: "ask drifting_services ?qa ''which?'' ?s1
             = (Inr ''I do not know.'', ?s2\<lparr>trace := trace ?s2 @ [EvChat ?p], env := env ?s2\<rparr>)"
    using r2 by (rule ask_result) (simp add: drifting_services_def)
  have ids: "source_ids (butlast abcd_chunks) = [''A'', ''B'', ''C'']"
    by (simp add: abcd_chunks_def source_ids_Cons source_ids_Nil doc_source_def)
  have fo: "first_occurrences [''A'', ''B'', ''C''] = [''A'', ''B'', ''C'']"
    by (simp add: first_unseen unseen_Cons unseen_Nil)
  have ctx: "format_docs (tl abcd_chunks) = ''two\<newline>\<newline>three\<newline>\<newline>four''"
    by (simp add: format_docs_def abcd_chunks_def)
  show ?thesis
    using ask_with_sources_result[OF r1 a]
    by (simp add: ids fo ctx drifting_state_def)
qed

subsection \<open>The sources of an answer\<close>

text \<open>
  Claim C3 says that \<open>ask_with_sources\<close> returns the sources as an ordered list of strings:
  the distinct source identifiers of the retrieved chunks in first-occurrence order. The
  code collects that list and then returns \<open>"\n".join(sources)\<close>, one string.

  C3 as the code has it: when the retrieval returns chunks of which at least one carries a
  source identifier, the \<open>sources\<close> entry of the result is a single string, the distinct
  identifiers of those chunks in first-occurrence order joined by newlines; the identifiers
  joined are pairwise distinct and are exactly those the chunks carry.
\<close>

theorem ask_with_sources_joined_first_occurrences:
  assumes "retrieve L qa q s = (Inr docs, s1)" and "ask L qa q s1 = (Inr a, s2)"
  shows "ask_with_sources L qa q s =
           (Inr \<lparr>answer = a,
                 sources = (if source_ids docs = [] then PyStr ''No sources available''
                            else PyStr (str_join ''\<newline>'' (first_occurrences (source_ids docs))))\<rparr>,
            s2)
         \<and> distinct (first_occurrences (source_ids docs))
         \<and> set (first_occurrences (source_ids docs)) = set (source_ids docs)"
  using ask_with_sources_result[OF assms]
  by (simp add: first_occurrences_distinct first_occurrences_set)

text \<open>The theorem on chunks from the sources A, B, A.\<close>

theorem ask_with_sources_joined_first_occurrences_witness:
  "retrieve toy_services (new_qa_chain abc_chunks) ''which?'' (toy_state empty_fs)
     = (Inr abc_chunks,
        (toy_state empty_fs)\<lparr>trace := trace (toy_state empty_fs) @ [EvRetrieve ''which?''],
                               env := env (toy_state empty_fs)\<rparr>)
   \<and> fst (ask toy_services (new_qa_chain abc_chunks) ''which?''
        ((toy_state empty_fs)\<lparr>trace := trace (toy_state empty_fs) @ [EvRetrieve ''which?''],
                               env := env (toy_state empty_fs)\<rparr>))
     = Inr ''I do not know.''
   \<and> fst (ask_with_sources toy_services (new_qa_chain abc_chunks) ''which?'' (toy_state empty_fs))
     = Inr \<lparr>answer = ''I do not know.'', sources = PyStr ''A\<newline>B''\<rparr>
   \<and> source_ids abc_chunks = [''A'', ''B'', ''A'']
   \<and> first_occurrences (source_ids abc_chunks) = [''A'', ''B'']"
  using ask_with_sources_joined_first_occurrences[OF toy_retrieve_step toy_ask_step,
      of "''which?''" "toy_state empty_fs"]
  by (simp add: toy_retrieve_step toy_ask_step abc_source_ids abc_first_occurrences)

text \<open>For chunks from A, B, A the entry is the string \<open>"A\nB"\<close>, not the list of A and B.\<close>

theorem ask_with_sources_list_counterexample:
  "result_sources (fst (ask_with_sources toy_services (new_qa_chain abc_chunks) ''which?''
       (toy_state empty_fs))) = Some (PyStr ''A\<newline>B'')
   \<and> result_sources (fst (ask_with_sources toy_services (new_qa_chain abc_chunks) ''which?''
       (toy_state empty_fs))) \<noteq> Some (PyList [''A'', ''B''])"
  unfolding toy_ask_with_sources by (simp add: result_sources_def)

text \<open>
  Claim C6: when no retrieved chunk carries a source identifier, the \<open>sources\<close> entry of
  the result of \<open>ask_with_sources\<close> is the text \<open>No sources available\<close>, which is neither an
  empty list nor an empty string.
\<close>

theorem ask_with_sources_no_sources_sentinel:
  assumes "retrieve L qa q s = (Inr docs, s1)" and "ask L qa q s1 = (Inr a, s2)"
    and "\<forall>d \<in> set docs. doc_source d = None"
  shows "ask_with_sources L qa q s = (Inr \<lparr>answer = a, sources = PyStr ''No sources available''\<rparr>, s2)
         \<and> PyStr ''No sources available'' \<noteq> PyList []
         \<and> PyStr ''No sources available'' \<noteq> PyStr ''''"
proof -
  from assms(3) have "source_ids docs = []" by (simp add: source_ids_empty)
  with ask_with_sources_result[OF assms(1,2)] show ?thesis by simp
qed

text \<open>The theorem on two chunks, one with metadata but no source, one without metadata.\<close>

theorem ask_with_sources_no_sources_sentinel_witness:
  "retrieve toy_services (new_qa_chain anonymous_chunks) ''which?'' (toy_state empty_fs)
     = (Inr anonymous_chunks,
        (toy_state empty_fs)\<lparr>trace := trace (toy_state empty_fs) @ [EvRetrieve ''which?''],
                               env := env (toy_state empty_fs)\<rparr>)
   \<and> fst (ask toy_services (new_qa_chain anonymous_chunks) ''which?''
        ((toy_state empty_fs)\<lparr>trace := trace (toy_state empty_fs) @ [EvRetrieve ''which?''],
                               env := env (toy_state empty_fs)\<rparr>))
     = Inr ''I do not know.''
   \<and> source_ids anonymous_chunks = []
   \<and> fst (ask_with_sources toy_services (new_qa_chain anonymous_chunks) ''which?'' (toy_state empty_fs))
     = Inr \<lparr>answer = ''I do not know.'', sources = PyStr ''No sources available''\<rparr>"
  using ask_with_sources_no_sources_sentinel[OF toy_retrieve_anonymous_step toy_ask_anonymous_step
      anonymous_no_source, of "''which?''" "toy_state empty_fs"]
  by (simp add: toy_retrieve_anonymous_step toy_ask_anonymous_step source_ids_empty
      anonymous_no_source)

subsection \<open>The index on disk\<close>

text \<open>
  Claim C2 says that \<open>index_exists\<close> is true only when both artifacts of the index, the
  files \<open>index.faiss\<close> and \<open>index.pkl\<close>, are present at the path. The code tests only that
  the path is a directory: for an empty directory at the default path it answers \<open>True\<close>
  although neither file is there, and likewise for a directory that holds \<open>index.faiss\<close>
  alone.
\<close>

theorem index_exists_without_artifacts:
  "index_exists None (toy_state empty_folder_fs)
   \<and> \<not> has_artifact (fs (env (toy_state empty_folder_fs))) ''faiss_store_openai'' ''index.faiss''
   \<and> \<not> has_artifact (fs (env (toy_state empty_folder_fs))) ''faiss_store_openai'' ''index.pkl''
   \<and> index_exists (Some ''faiss_store_openai'') (toy_state half_written_fs)
   \<and> \<not> has_artifact (fs (env (toy_state half_written_fs))) ''faiss_store_openai'' ''index.pkl''"
  by (simp add: index_exists_def default_path toy_state_def empty_folder_fs_def half_written_fs_def
      os_path_exists_def os_path_isdir_def has_artifact_def)

text \<open>
  Claim C5 says that \<open>load_vectorstore\<close> returns \<open>None\<close> for a path that does not exist, and
  raises for a corrupt or unreadable index at an existing path. The code decides by
  \<open>index_exists\<close>, which asks whether the path is a directory: something that exists at the
  path without being a directory, such as a regular file, is answered with \<open>None\<close> as well,
  although it cannot be read as an index.

  C5 as the code has it: \<open>load_vectorstore\<close> returns \<open>None\<close>, without an exception and without
  calling a library, exactly when the path is not a directory as \<open>os.path\<close> sees it, which
  includes every path at which nothing exists; for a directory at the path for which
  \<open>FAISS.load_local\<close> raises (or for which the embedding client it needs cannot be built),
  \<open>load_vectorstore\<close> raises that exception, an outcome different from \<open>None\<close>.
\<close>

theorem load_vectorstore_none_or_raises:
  "(\<not> os_path_exists (fs (env s)) p \<longrightarrow> load_vectorstore L (Some p) s = (Inr None, s))
   \<and> (\<not> os_path_isdir (fs (env s)) p \<longrightarrow> load_vectorstore L (Some p) s = (Inr None, s))
   \<and> (fst (load_vectorstore L (Some p) s) = Inr None \<longleftrightarrow> \<not> os_path_isdir (fs (env s)) p)
   \<and> (os_path_isdir (fs (env s)) p \<and> initialize_embeddings L s = (Inl e, s1)
        \<longrightarrow> load_vectorstore L (Some p) s = (Inl e, s1)
            \<and> fst (load_vectorstore L (Some p) s) \<noteq> Inr None)
   \<and> (os_path_isdir (fs (env s)) p \<and> initialize_embeddings L s = (Inr emb, s1)
        \<and> faiss_load_local L p emb True (env s1) = (Inl e, e')
        \<longrightarrow> load_vectorstore L (Some p) s = (Inl e, s1\<lparr>trace := trace s1 @ [EvLoadLocal p], env := e'\<rparr>)
            \<and> fst (load_vectorstore L (Some p) s) \<noteq> Inr None)"
proof (intro conjI impI)
  have gate: "index_exists (Some p) s = os_path_isdir (fs (env s)) p"
    by (auto simp: index_exists_def os_path_exists_def os_path_isdir_def
        split: option.splits node.splits)
  have nodir: "\<not> os_path_isdir (fs (env s)) p \<Longrightarrow> load_vectorstore L (Some p) s = (Inr None, s)"
    by (simp add: load_vectorstore_def gate ret_def)
  {
    assume "\<not> os_path_exists (fs (env s)) p"
    then have "\<not> os_path_isdir (fs (env s)) p"
      by (auto simp: os_path_exists_def os_path_isdir_def split: option.splits)
    then show "load_vectorstore L (Some p) s = (Inr None, s)" by (rule nodir)
  }
  {
    assume "\<not> os_path_isdir (fs (env s)) p"
    then show "load_vectorstore L (Some p) s = (Inr None, s)" by (rule nodir)
  }
  show "fst (load_vectorstore L (Some p) s) = Inr None \<longleftrightarrow> \<not> os_path_isdir (fs (env s)) p"
  proof (cases "os_path_isdir (fs (env s)) p")
    case True
    then have "fst (load_vectorstore L (Some p) s) \<noteq> Inr None"
      by (auto simp: load_vectorstore_def gate seq_def ret_def extern_def
          split: prod.splits sum.splits)
    with True show ?thesis by simp
  next
    case False
    then show ?thesis by (simp add: nodir)
  qed
  {
    assume a: "os_path_isdir (fs (env s)) p \<and> initialize_embeddings L s = (Inl e, s1)"
    then show r: "load_vectorstore L (Some p) s = (Inl e, s1)"
      by (simp add: load_vectorstore_def gate seq_Inl)
    then show "fst (load_vectorstore L (Some p) s) \<noteq> Inr None" by simp
  }
  {
    assume a: "os_path_isdir (fs (env s)) p \<and> initialize_embeddings L s = (Inr emb, s1)
          \<and> faiss_load_local L p emb True (env s1) = (Inl e, e')"
    then have "extern (EvLoadLocal p) (faiss_load_local L p emb True) s1
                   = (Inl e, s1\<lparr>trace := trace s1 @ [EvLoadLocal p], env := e'\<rparr>)"
      by (simp add: extern_result)
    with a show r: "load_vectorstore L (Some p) s
                      = (Inl e, s1\<lparr>trace := trace s1 @ [EvLoadLocal p], env := e'\<rparr>)"
      by (simp add: load_vectorstore_def gate seq_Inl seq_Inr)
    then show "fst (load_vectorstore L (Some p) s) \<noteq> Inr None" by simp
  }
qed

text \<open>
  The theorem on the small instance: no file at all; a regular file; a folder with one of
  its two files; the same folder when the embedding client cannot be built.
\<close>

theorem load_vectorstore_none_or_raises_witness:
  "\<not> os_path_exists (fs (env (toy_state empty_fs))) ''faiss_store_openai''
   \<and> load_vectorstore toy_services (Some ''faiss_store_openai'') (toy_state empty_fs)
       = (Inr None, toy_state empty_fs)
   \<and> \<not> os_path_isdir (fs (env (toy_state regular_file_fs))) ''faiss_store_openai''
   \<and> load_vectorstore toy_services (Some ''faiss_store_openai'') (toy_state regular_file_fs)
       = (Inr None, toy_state regular_file_fs)
   \<and> os_path_isdir (fs (env (toy_state half_written_fs))) ''faiss_store_openai''
   \<and> fst (load_vectorstore toy_services (Some ''faiss_store_openai'') (toy_state half_written_fs))
       = Inl (Exception ''cannot read the index'')
   \<and> fst (load_vectorstore keyless_services
            (Some ''faiss_store_openai'') (toy_state half_written_fs))
       = Inl (Exception ''no api key'')"
proof -
  let ?p = "''faiss_store_openai''"
  let ?L = "keyless_services"
  have absent: "\<not> os_path_exists (fs (env (toy_state empty_fs))) ?p"
    by (simp add: toy_defs)
  have nodir: "\<not> os_path_isdir (fs (env (toy_state regular_file_fs))) ?p"
    by (simp add: toy_defs regular_file_fs_def)
  have dir: "os_path_isdir (fs (env (toy_state half_written_fs))) ?p"
    by (simp add: toy_defs half_written_fs_def)
  have load: "faiss_load_local toy_services ?p () True
                (env ((toy_state half_written_fs)\<lparr>self_embeddings := Some ()\<rparr>))
              = (Inl (Exception ''cannot read the index''), env (toy_state half_written_fs))"
    by (simp add: toy_defs half_written_fs_def)
  have init: "initialize_embeddings ?L (toy_state half_written_fs)
              = (Inl (Exception ''no api key''), toy_state half_written_fs)"
    by (simp add: initialize_embeddings_def keyless_services_def toy_services_def toy_state_def)
  show ?thesis
    using absent nodir dir
      load_vectorstore_none_or_raises[of "toy_state empty_fs" ?p toy_services]
      load_vectorstore_none_or_raises[of "toy_state regular_file_fs" ?p toy_services]
      load_vectorstore_none_or_raises[of "toy_state half_written_fs" ?p toy_services
        "Exception ''cannot read the index''"
        "(toy_state half_written_fs)\<lparr>self_embeddings := Some ()\<rparr>" "()"
        "env (toy_state half_written_fs)"]
      load_vectorstore_none_or_raises[of "toy_state half_written_fs" ?p ?L
        "Exception ''no api key''" "toy_state half_written_fs"]
      toy_initialize[of half_written_fs] load init
    by simp
qed

text \<open>
  A regular file at the path exists and cannot be read as an index, and the outcome is
  \<open>None\<close>, not an exception.
\<close>

theorem load_vectorstore_existing_file_counterexample:
  "os_path_exists (fs (env (toy_state regular_file_fs))) ''faiss_store_openai''
   \<and> fst (faiss_load_local toy_services ''faiss_store_openai'' () True
            (env (toy_state regular_file_fs)))
       = Inl (Exception ''cannot read the index'')
   \<and> load_vectorstore toy_services (Some ''faiss_store_openai'') (toy_state regular_file_fs)
       = (Inr None, toy_state regular_file_fs)"
  by (simp add: load_vectorstore_def index_exists_def ret_def toy_services_def toy_state_def
      regular_file_fs_def os_path_exists_def os_path_isdir_def has_artifact_def)

text \<open>
  Claim C9: without a path argument, \<open>save_vectorstore\<close>, \<open>load_vectorstore\<close> and
  \<open>index_exists\<close> all use the path \<open>faiss_store_openai\<close>, which is \<open>FAISS_INDEX_PATH\<close>
  without its suffix \<open>.pkl\<close>: each behaves as when called with that path. So after a save
  with the default path that left the index folder there (as FAISS does), \<open>index_exists\<close>
  with the default path is true and \<open>load_vectorstore\<close> with the default path returns what
  \<open>FAISS.load_local\<close> reads at that same path.
\<close>

theorem default_index_path_shared:
  "str_replace ''.pkl'' '''' FAISS_INDEX_PATH = ''faiss_store_openai''
   \<and> FAISS_INDEX_PATH = ''faiss_store_openai'' @ ''.pkl''
   \<and> save_vectorstore L vs None s = save_vectorstore L vs (Some ''faiss_store_openai'') s
   \<and> load_vectorstore L None s = load_vectorstore L (Some ''faiss_store_openai'') s
   \<and> index_exists None s = index_exists (Some ''faiss_store_openai'') s
   \<and> (save_vectorstore L vs None s = (Inr (), s') \<and> os_path_isdir (fs (env s')) ''faiss_store_openai''
        \<longrightarrow> trace s' = trace s @ [EvSaveLocal ''faiss_store_openai'']
            \<and> index_exists None s'
            \<and> (\<forall>emb s1 r e1.
                  initialize_embeddings L s' = (Inr emb, s1)
                  \<and> faiss_load_local L ''faiss_store_openai'' emb True (env s1) = (r, e1)
                  \<longrightarrow> load_vectorstore L None s'
                        = (map_sum id Some r,
                           s1\<lparr>trace := trace s1 @ [EvLoadLocal ''faiss_store_openai''], env := e1\<rparr>)))"
proof (intro conjI impI allI)
  show "str_replace ''.pkl'' '''' FAISS_INDEX_PATH = ''faiss_store_openai''" by (rule default_path)
  show "FAISS_INDEX_PATH = ''faiss_store_openai'' @ ''.pkl''" by (simp add: FAISS_INDEX_PATH_def)
  show "save_vectorstore L vs None s = save_vectorstore L vs (Some ''faiss_store_openai'') s"
    by (simp add: save_vectorstore_def default_path)
  show "load_vectorstore L None s = load_vectorstore L (Some ''faiss_store_openai'') s"
    by (simp add: load_vectorstore_def default_path)
  show "index_exists None s = index_exists (Some ''faiss_store_openai'') s"
    by (simp add: index_exists_def default_path)
next
  assume a: "save_vectorstore L vs None s = (Inr (), s') \<and> os_path_isdir (fs (env s')) ''faiss_store_openai''"
  then show "trace s' = trace s @ [EvSaveLocal ''faiss_store_openai'']"
    by (auto dest: save_vectorstore_trace)
  from a show ex: "index_exists None s'"
    by (auto simp: index_exists_def default_path os_path_exists_def os_path_isdir_def split: option.splits)
  fix emb s1 r e1
  assume b: "initialize_embeddings L s' = (Inr emb, s1)
             \<and> faiss_load_local L ''faiss_store_openai'' emb True (env s1) = (r, e1)"
  then have x: "extern (EvLoadLocal ''faiss_store_openai'') (faiss_load_local L ''faiss_store_openai'' emb True) s1
                  = (r, s1\<lparr>trace := trace s1 @ [EvLoadLocal ''faiss_store_openai''], env := e1\<rparr>)"
    by (simp add: extern_result)
  from ex have ex': "index_exists (Some ''faiss_store_openai'') s'"
    by (simp add: index_exists_def default_path)
  show "load_vectorstore L None s'
          = (map_sum id Some r, s1\<lparr>trace := trace s1 @ [EvLoadLocal ''faiss_store_openai''], env := e1\<rparr>)"
    using b x ex' by (cases r) (simp_all add: load_vectorstore_def default_path seq_def ret_def)
qed

text \<open>The theorem on the small instance: the index saved is found and loaded back.\<close>

theorem default_index_path_shared_witness:
  "fst (save_vectorstore toy_services abc_chunks None (toy_state empty_fs)) = Inr ()
   \<and> os_path_isdir
        (fs (env (snd (save_vectorstore toy_services abc_chunks None (toy_state empty_fs)))))
        ''faiss_store_openai''
   \<and> index_exists None (snd (save_vectorstore toy_services abc_chunks None (toy_state empty_fs)))
   \<and> fst (load_vectorstore toy_services None
            (snd (save_vectorstore toy_services abc_chunks None (toy_state empty_fs))))
       = Inr (Some abc_chunks)
   \<and> trace (snd (load_vectorstore toy_services None
            (snd (save_vectorstore toy_services abc_chunks None (toy_state empty_fs)))))
       = [EvSaveLocal ''faiss_store_openai'', EvLoadLocal ''faiss_store_openai'']"
proof -
  let ?s' = "snd (save_vectorstore toy_services abc_chunks None (toy_state empty_fs))"
  have sv: "save_vectorstore toy_services abc_chunks None (toy_state empty_fs) = (Inr (), ?s')"
    by (simp add: toy_save)
  have dir: "os_path_isdir (fs (env ?s')) ''faiss_store_openai''"
    unfolding toy_save by (simp add: os_path_isdir_def toy_folder_def)
  have init: "initialize_embeddings toy_services ?s' = (Inr (), ?s'\<lparr>self_embeddings := Some ()\<rparr>)"
    unfolding toy_save by (simp add: initialize_embeddings_def toy_services_def)
  have ld: "faiss_load_local toy_services ''faiss_store_openai'' () True
              (env (?s'\<lparr>self_embeddings := Some ()\<rparr>)) = (Inr abc_chunks, env ?s')"
    unfolding toy_save by (simp add: toy_services_def has_artifact_def toy_folder_def)
  from default_index_path_shared[of toy_services abc_chunks "toy_state empty_fs" ?s'] sv dir
  have "index_exists None ?s'"
    and "\<forall>emb s1 r e1.
           initialize_embeddings toy_services ?s' = (Inr emb, s1)
           \<and> faiss_load_local toy_services ''faiss_store_openai'' emb True (env s1) = (r, e1)
           \<longrightarrow> load_vectorstore toy_services None ?s'
                 = (map_sum id Some r,
                    s1\<lparr>trace := trace s1 @ [EvLoadLocal ''faiss_store_openai''], env := e1\<rparr>)"
    by blast+
  with init ld have "index_exists None ?s'"
    and "load_vectorstore toy_services None ?s'
          = (Inr (Some abc_chunks),
             ?s'\<lparr>self_embeddings := Some (),
                  trace := trace ?s' @ [EvLoadLocal ''faiss_store_openai''], env := env ?s'\<rparr>)"
    by auto
  with sv dir show ?thesis by (simp add: toy_save)
qed

subsection \<open>The pipeline\<close>

text \<open>
  Claim C10: \<open>process_urls\<close> is the composition of \<open>load_urls\<close>, \<open>split_documents\<close> and
  \<open>create_vectorstore\<close> in that order. When it returns \<open>(vectorstore, num_documents,
  num_chunks)\<close>, the documents were loaded by \<open>load_urls\<close> and \<open>num_documents\<close> is their
  number, the chunks were split from exactly those documents and \<open>num_chunks\<close> is their
  number, the vector store was created from exactly those chunks, and the index was saved
  (once, at the default path) if and only if \<open>save_index\<close> is true.
\<close>

theorem process_urls_is_pipeline:
  "process_urls L urls save_index s = process_urls_spec L urls save_index s
   \<and> (process_urls L urls save_index s = (Inr (vs, nd, nc), s') \<longrightarrow>
        (\<exists>docs s1 chunks s2 s3.
           load_urls L urls s = (Inr docs, s1) \<and> nd = length docs
           \<and> split_documents L docs s1 = (Inr chunks, s2) \<and> nc = length chunks
           \<and> create_vectorstore L chunks s2 = (Inr vs, s3)
           \<and> (if save_index then save_vectorstore L vs None s3 = (Inr (), s') else s' = s3))
        \<and> save_count (trace s') = save_count (trace s) + (if save_index then 1 else 0))"
proof (intro conjI impI)
  show eq: "process_urls L urls save_index s = process_urls_spec L urls save_index s"
    by (simp add: process_urls_def process_urls_spec_def seq_def ret_def Let_def
        split: prod.splits sum.splits)
  assume r: "process_urls L urls save_index s = (Inr (vs, nd, nc), s')"
  then have "process_urls_spec L urls save_index s = (Inr (vs, nd, nc), s')"
    using eq by simp
  then show ex: "\<exists>docs s1 chunks s2 s3.
           load_urls L urls s = (Inr docs, s1) \<and> nd = length docs
           \<and> split_documents L docs s1 = (Inr chunks, s2) \<and> nc = length chunks
           \<and> create_vectorstore L chunks s2 = (Inr vs, s3)
           \<and> (if save_index then save_vectorstore L vs None s3 = (Inr (), s') else s' = s3)"
    by (auto simp: process_urls_spec_def split: prod.splits sum.splits if_splits)
  then obtain docs s1 chunks s2 s3 where
    l: "load_urls L urls s = (Inr docs, s1)" and
    sp: "split_documents L docs s1 = (Inr chunks, s2)" and
    c: "create_vectorstore L chunks s2 = (Inr vs, s3)" and
    sv: "if save_index then save_vectorstore L vs None s3 = (Inr (), s') else s' = s3"
    by blast
  have t3: "trace s3 = trace s @ [EvUrlLoad urls, EvFromDocuments chunks]"
    using load_urls_trace[OF l] split_documents_state[OF sp] create_vectorstore_trace[OF c] by simp
  show "save_count (trace s') = save_count (trace s) + (if save_index then 1 else 0)"
  proof (cases save_index)
    case True
    with sv have "trace s' = trace s3 @ [EvSaveLocal ''faiss_store_openai'']"
      by (auto dest: save_vectorstore_trace)
    with True t3 show ?thesis by (simp add: save_count_def)
  next
    case False
    with sv t3 show ?thesis by (simp add: save_count_def)
  qed
qed

text \<open>The theorem on the small instance, for two URLs and \<open>save_index = True\<close>.\<close>

theorem process_urls_is_pipeline_witness:
  "process_urls toy_services [''http://a'', ''http://b''] True (toy_state empty_fs)
     = process_urls_spec toy_services [''http://a'', ''http://b''] True (toy_state empty_fs)
   \<and> fst (process_urls toy_services [''http://a'', ''http://b''] True (toy_state empty_fs))
     = Inr ([\<lparr>page_content = ''text of http://a'', metadata = Some [(''source'', ''http://a'')]\<rparr>,
             \<lparr>page_content = ''text of http://b'', metadata = Some [(''source'', ''http://b'')]\<rparr>],
            2, 2)
   \<and> save_count (trace (snd (process_urls toy_services [''http://a'', ''http://b''] True
        (toy_state empty_fs))))
     = save_count (trace (toy_state empty_fs)) + 1"
proof -
  let ?r = "process_urls toy_services [''http://a'', ''http://b''] True (toy_state empty_fs)"
  have "?r = (fst ?r, snd ?r)" by simp
  then have r: "?r = (Inr ([\<lparr>page_content = ''text of http://a'', metadata = Some [(''source'', ''http://a'')]\<rparr>,
             \<lparr>page_content = ''text of http://b'', metadata = Some [(''source'', ''http://b'')]\<rparr>],
            2, 2), snd ?r)"
    unfolding toy_process_urls .
  note inst = process_urls_is_pipeline[of toy_services "[''http://a'', ''http://b'']" True
      "toy_state empty_fs" _ 2 2 "snd ?r"]
  have eq: "?r = process_urls_spec toy_services [''http://a'', ''http://b''] True (toy_state empty_fs)"
    by (rule conjunct1[OF inst])
  have "save_count (trace (snd ?r))
          = save_count (trace (toy_state empty_fs)) + (if True then 1 else 0)"
    by (rule conjunct2[OF mp[OF conjunct2[OF inst] r]])
  then have sc: "save_count (trace (snd ?r)) = save_count (trace (toy_state empty_fs)) + 1"
    by simp
  show ?thesis
    by (intro conjI) (rule eq, rule toy_process_urls, rule sc)
qed

end
